theory Spec2Isabelle
  imports Complex_Main
begin

text \<open>
  The weather dashboard of this repository, as functions on the state of the page:
  \<open>route.js\<close> (the hash router and its two handlers) and \<open>app.js\<close> (the renderer
  with the callbacks of its requests, and the debounced search field). Each listener and
  each callback is a function from the page before to the page after, with the requests
  and calls it makes on the way; a callback that throws returns the page as it left it.
\<close>

section \<open>Values of the host language\<close>

text \<open>
  A JavaScript number is an IEEE double: not-a-number, one of the two infinities, or a
  finite value, kept here as the rational it denotes. The comparison \<open><\<close> is false as
  soon as one side is not a number.
\<close>

datatype jsnum = NaN | NegInfinity | PosInfinity | Fin rat

fun isNaN :: "jsnum \<Rightarrow> bool" where
  "isNaN NaN = True"
| "isNaN _ = False"

fun js_less :: "jsnum \<Rightarrow> jsnum \<Rightarrow> bool" where
  "js_less NaN _ = False"
| "js_less _ NaN = False"
| "js_less NegInfinity NegInfinity = False"
| "js_less NegInfinity _ = True"
| "js_less PosInfinity _ = False"
| "js_less (Fin a) NegInfinity = False"
| "js_less (Fin a) PosInfinity = True"
| "js_less (Fin a) (Fin b) = (a < b)"

text \<open>
  Strings are byte lists. The source only ever looks for the ASCII characters
  \<open>&\<close>, \<open>=\<close>, \<open>?\<close> and for ASCII prefixes, and drops the leading \<open>#\<close>, so bytes and
  UTF-16 code units behave alike here.

  \<open>s.split(c)\<close> for a one-character separator: the pieces between the separators, never
  an empty array (\<open>"".split("&")\<close> is \<open>[""]\<close>).
\<close>

fun js_split :: "char \<Rightarrow> string \<Rightarrow> string list" where
  "js_split c [] = [[]]"
| "js_split c (x # xs) =
     (if x = c then [] # js_split c xs
      else (case js_split c xs of
              [] \<Rightarrow> [[x]]
            | piece # pieces \<Rightarrow> (x # piece) # pieces))"

definition startsWith :: "string \<Rightarrow> string \<Rightarrow> bool" where
  "startsWith s pre = (take (length pre) s = pre)"

definition js_includes :: "string \<Rightarrow> char \<Rightarrow> bool" where
  "js_includes s c = (c \<in> set s)"

text \<open>\<open>xs[i]\<close>: \<open>undefined\<close> (here \<open>None\<close>) outside the array.\<close>

definition at_index :: "'a list \<Rightarrow> nat \<Rightarrow> 'a option" where
  "at_index xs i = (if i < length xs then Some (xs ! i) else None)"

text \<open>
  Truthiness of a value that is a string or \<open>undefined\<close>: false for \<open>undefined\<close> and for
  the empty string.
\<close>

fun truthy_string :: "string option \<Rightarrow> bool" where
  "truthy_string None = False"
| "truthy_string (Some s) = (s \<noteq> [])"

text \<open>\<open>String(v)\<close> for such a value, as \<open>parseFloat\<close> applies it to its argument.\<close>

fun to_string :: "string option \<Rightarrow> string" where
  "to_string None = ''undefined''"
| "to_string (Some s) = s"

subsection \<open>A decimal reading of \<open>parseFloat\<close>\<close>

text \<open>
  \<open>parseFloat\<close> is a built-in of the language, so the router below takes it as a
  parameter and every theorem about the router holds for each function put there.
  For concrete runs, \<open>parseFloat_dec\<close> follows the built-in's grammar on ASCII input:
  leading blanks are skipped, then the longest prefix that is a signed \<open>Infinity\<close> or a
  decimal literal (digits, an optional fraction, an optional exponent) is read, and the
  result is \<open>NaN\<close> when there is none. It returns the exact value of the literal, where
  the built-in returns the double nearest to it and an infinity beyond the range of the
  doubles: the two agree on the literals whose value is a double, such as \<open>999\<close> and
  \<open>0\<close>, and only such literals are evaluated below.
\<close>

definition is_digit :: "char \<Rightarrow> bool" where
  "is_digit c = (c \<in> set ''0123456789'')"

definition is_blank :: "char \<Rightarrow> bool" where
  "is_blank c = (c \<in> set [CHR '' '', CHR 0x09, CHR 0x0A, CHR 0x0B, CHR 0x0C, CHR 0x0D])"

definition digits_value :: "string \<Rightarrow> nat" where
  "digits_value ds = foldl (\<lambda>acc c. 10 * acc + (of_char c - 48)) 0 ds"

text \<open>The sign in front of a literal: whether it is negative, and the rest.\<close>

fun read_sign :: "string \<Rightarrow> bool \<times> string" where
  "read_sign [] = (False, [])"
| "read_sign (c # cs) =
     (if c = CHR ''-'' then (True, cs)
      else if c = CHR ''+'' then (False, cs)
      else (False, c # cs))"

text \<open>The exponent part \<open>e\<close>, sign, digits; 0 when what follows is not one.\<close>

fun read_exponent :: "string \<Rightarrow> int" where
  "read_exponent [] = 0"
| "read_exponent (c # cs) =
     (if c = CHR ''e'' \<or> c = CHR ''E'' then
        (let (neg, r) = read_sign cs; ds = takeWhile is_digit r
         in if ds = [] then 0
            else if neg then - int (digits_value ds) else int (digits_value ds))
      else 0)"

definition parseFloat_dec :: "string \<Rightarrow> jsnum" where
  "parseFloat_dec s =
     (let (neg, r) = read_sign (dropWhile is_blank s)
      in if startsWith r ''Infinity'' then (if neg then NegInfinity else PosInfinity)
         else
           (let ip = takeWhile is_digit r;
                r1 = dropWhile is_digit r;
                fp = (case r1 of [] \<Rightarrow> [] | c # t \<Rightarrow> if c = CHR ''.'' then takeWhile is_digit t else []);
                r2 = (case r1 of [] \<Rightarrow> [] | c # t \<Rightarrow> if c = CHR ''.'' then dropWhile is_digit t else r1)
            in if ip = [] \<and> fp = [] then NaN
               else
                 (let m = of_nat (digits_value ip) + of_nat (digits_value fp) / 10 ^ length fp;
                      e = read_exponent r2;
                      v = (if 0 \<le> e then m * 10 ^ nat e else m / 10 ^ nat (- e))
                  in Fin (if neg then - v else v))))"

section \<open>The page\<close>

text \<open>
  The requests \<open>fetchData\<close> is given, by the URL builder that makes them
  (\<open>url.currentWeather\<close>, \<open>url.reverseGeo\<close>, \<open>url.airPollution\<close>, \<open>url.forecast\<close>,
  \<open>url.geo\<close>) and its arguments.
\<close>

datatype endpoint =
    CurrentWeather jsnum jsnum
  | ReverseGeo jsnum jsnum
  | AirPollution jsnum jsnum
  | Forecast jsnum jsnum
  | Geo string

text \<open>
  What a listener does besides changing the page, in order: the functions of the two
  modules it enters, the requests it hands to \<open>fetchData\<close>, the position request, the
  \<open>hashchange\<close> event an assignment to the hash fires, and console output.
\<close>

datatype effect =
    Enter_currentLocation
  | Enter_searchedLocation string
  | Enter_error404
  | Enter_updateWeather jsnum jsnum
  | GetCurrentPosition
  | HashChange
  | Fetch endpoint
  | ConsoleError string

text \<open>
  What the four sections hold: for each card and item, the values of the reply that its
  template reads. They are kept as the reply gives them; the formatting the templates
  put on them (\<open>parseInt\<close>, \<open>toPrecision\<close>, \<open>windDirection - 180\<close>, and the functions
  and tables of \<open>module.js\<close>) is not applied.
\<close>

record weather_cond =
  cond_description :: string
  cond_icon :: string

record now_card =
  now_temp :: rat
  now_icon :: string
  now_description :: string
  now_dateUnix :: int
  now_timezone :: int

record highlight_card =
  hl_pm2_5 :: rat
  hl_so2 :: rat
  hl_no2 :: rat
  hl_o3 :: rat
  hl_aqi :: int
  hl_aqi_message :: string
  hl_aqi_level :: string
  hl_sunrise :: int
  hl_sunset :: int
  hl_timezone :: int
  hl_humidity :: rat
  hl_pressure :: rat
  hl_visibility :: rat
  hl_feels_like :: rat

text \<open>
  An item of the hourly slider: \<open>adjustedTimeUnix\<close> and the time zone given to
  \<open>module.getHours\<close>, and the values of the point its template reads (temperature item
  and wind item).
\<close>

record temp_item =
  ti_time :: int
  ti_timezone :: int
  ti_icon :: string
  ti_description :: string
  ti_temp :: rat

record wind_item =
  wi_time :: int
  wi_timezone :: int
  wi_direction :: rat
  wi_speed :: rat

record hourly =
  data_temp :: "temp_item list"
  data_wind :: "wind_item list"

text \<open>
  An item of the 7-day list. Its date is \<open>new Date(dt_txt)\<close>, moved by \<open>setDate\<close> by
  \<open>di_shift\<close> days when that is not \<open>None\<close>.
\<close>

record day_item =
  di_icon :: string
  di_description :: string
  di_temp_max :: rat
  di_dt_txt :: string
  di_shift :: "int option"

text \<open>
  The parts of the document the two modules read and write: the hash of the location,
  the inline styles and classes of the loading, container and error elements, the
  button, and the four sections (\<open>None\<close> and \<open>[]\<close> for an empty \<open>innerHTML\<close>).
\<close>

record page =
  hash :: string
  loading_display :: string
  container_overflowY :: string
  container_fade_in :: bool
  errorContent_display :: string
  currentLocationBtn_disabled :: bool
  currentWeatherSection :: "now_card list"
  highlightSection :: "highlight_card list"
  hourlySection :: "hourly option"
  forecastSection :: "day_item list option"

text \<open>Putting effects in front of what a call returns.\<close>

fun after :: "effect list \<Rightarrow> page \<times> effect list \<Rightarrow> page \<times> effect list" where
  "after es (p, es') = (p, es @ es')"

section \<open>app.js: entry of the renderer and the error panel\<close>

definition error404 :: "page \<Rightarrow> page \<times> effect list" where
  "error404 p = (p\<lparr>errorContent_display := ''flex''\<rparr>, [Enter_error404])"

definition updateWeather :: "jsnum \<Rightarrow> jsnum \<Rightarrow> page \<Rightarrow> page \<times> effect list" where
  "updateWeather lat lon p =
     (p\<lparr>loading_display := ''grid'',
        container_overflowY := ''hidden'',
        container_fade_in := False,
        errorContent_display := ''none'',
        currentWeatherSection := [],
        highlightSection := [],
        hourlySection := None,
        forecastSection := None,
        currentLocationBtn_disabled := (hash p = ''#/current-location'')\<rparr>,
      [Enter_updateWeather lat lon, Fetch (CurrentWeather lat lon)])"

section \<open>route.js\<close>

definition defaultLocation :: string where
  "defaultLocation = ''#/weather?lat=28.6139&lon=77.209''"

text \<open>
  \<open>window.location.hash = h\<close>, for the two values the source assigns (each a \<open>#\<close>
  followed by a non-empty fragment, so the hash reads back as assigned): the browser
  fires \<open>hashchange\<close> when the fragment changes.
\<close>

definition assign_hash :: "string \<Rightarrow> page \<Rightarrow> page \<times> effect list" where
  "assign_hash h p = (p\<lparr>hash := h\<rparr>, if hash p = h then [] else [HashChange])"

text \<open>
  \<open>currentLocation\<close> asks for the position and returns; the browser later calls one of
  its two callbacks.
\<close>

datatype position_error = PERMISSION_DENIED | POSITION_UNAVAILABLE | TIMEOUT

datatype position_result = Position jsnum jsnum | PositionError position_error

definition currentLocation :: "page \<Rightarrow> page \<times> effect list" where
  "currentLocation p = (p, [Enter_currentLocation, GetCurrentPosition])"

fun currentLocation_callback :: "position_result \<Rightarrow> page \<Rightarrow> page \<times> effect list" where
  "currentLocation_callback (Position latitude longitude) p = updateWeather latitude longitude p"
| "currentLocation_callback (PositionError err) p = assign_hash defaultLocation p"

definition searchedLocation :: "(string \<Rightarrow> jsnum) \<Rightarrow> string \<Rightarrow> page \<Rightarrow> page \<times> effect list" where
  "searchedLocation parseFloat query p =
     after [Enter_searchedLocation query]
       (let params = js_split CHR ''&'' query;
            latParam = find (\<lambda>param. startsWith param ''lat='') params;
            lonParam = find (\<lambda>param. startsWith param ''lon='') params
        in if \<not> truthy_string latParam \<or> \<not> truthy_string lonParam then error404 p
           else
             (let lat = parseFloat (to_string (at_index (js_split CHR ''='' (to_string latParam)) 1));
                  lon = parseFloat (to_string (at_index (js_split CHR ''='' (to_string lonParam)) 1))
              in if isNaN lat \<or> isNaN lon \<or> js_less lat (Fin (- 90)) \<or> js_less (Fin 90) lat
                    \<or> js_less lon (Fin (- 180)) \<or> js_less (Fin 180) lon
                 then error404 p
                 else updateWeather lat lon p))"

text \<open>
  The route table; \<open>currentLocation\<close> takes no argument and ignores the query. In
  \<open>checkHash\<close> the destructured array has its two elements on both branches: \<open>split\<close>
  gives at least two pieces for a string with a \<open>?\<close> in it.
\<close>

definition routes :: "(string \<Rightarrow> jsnum) \<Rightarrow> (string \<times> (string \<Rightarrow> page \<Rightarrow> page \<times> effect list)) list" where
  "routes parseFloat =
     [(''/current-location'', \<lambda>query. currentLocation),
      (''/weather'', searchedLocation parseFloat)]"

definition checkHash :: "(string \<Rightarrow> jsnum) \<Rightarrow> page \<Rightarrow> page \<times> effect list" where
  "checkHash parseFloat p =
     (let requestURL = drop 1 (hash p);
          parts = (if js_includes requestURL CHR ''?'' then js_split CHR ''?'' requestURL
                   else [requestURL, '''']);
          route = to_string (at_index parts 0);
          query = at_index parts 1
      in case map_of (routes parseFloat) route of
           Some handler \<Rightarrow> handler (to_string query) p
         | None \<Rightarrow> error404 p)"

text \<open>The listener of the \<open>load\<close> event; the one of \<open>hashchange\<close> is \<open>checkHash\<close>.\<close>

definition on_load :: "(string \<Rightarrow> jsnum) \<Rightarrow> page \<Rightarrow> page \<times> effect list" where
  "on_load parseFloat p =
     (if hash p = [] then assign_hash ''#/current-location'' p
      else checkHash parseFloat p)"

section \<open>app.js: the continuations of the renderer\<close>

text \<open>
  \<open>fetchData\<close> (in \<open>api.js\<close>) hands the decoded reply to its callback. Each callback is
  a function of the reply and the page as it is when the reply arrives. A callback that
  throws stops there: the page keeps what was written before.
\<close>

datatype error = TypeError

datatype outcome = Completed page "effect list" | Uncaught error page "effect list"

fun outcome_page :: "outcome \<Rightarrow> page" where
  "outcome_page (Completed p es) = p"
| "outcome_page (Uncaught e p es) = p"

fun outcome_effects :: "outcome \<Rightarrow> effect list" where
  "outcome_effects (Completed p es) = es"
| "outcome_effects (Uncaught e p es) = es"

text \<open>A decoded JSON value, and its truthiness when read from a member that may be absent.\<close>

datatype json =
    JNull
  | JBool bool
  | JNum rat
  | JStr string
  | JArr "json list"
  | JObj "(string \<times> json) list"

fun truthy :: "json option \<Rightarrow> bool" where
  "truthy None = False"
| "truthy (Some JNull) = False"
| "truthy (Some (JBool b)) = b"
| "truthy (Some (JNum x)) = (x \<noteq> 0)"
| "truthy (Some (JStr s)) = (s \<noteq> [])"
| "truthy (Some (JArr xs)) = True"
| "truthy (Some (JObj ms)) = True"

text \<open>
  The reply of the current-weather endpoint: \<open>cod\<close> and \<open>message\<close>, each possibly
  absent, and the weather data the callback destructures. \<open>cw_data\<close> is \<open>None\<close> for a
  reply without them (no \<open>sys\<close>, \<open>main\<close> or \<open>weather\<close>, as in the error replies of the
  service): destructuring such a reply throws. The \<open>weather\<close> array has a first
  element, the only one read.
\<close>

record current_data =
  cd_weather :: "weather_cond \<times> weather_cond list"
  cd_dt :: int
  cd_sunrise :: int
  cd_sunset :: int
  cd_temp :: rat
  cd_feels_like :: rat
  cd_pressure :: rat
  cd_humidity :: rat
  cd_visibility :: rat
  cd_timezone :: int

record current_weather =
  cw_cod :: "json option"
  cw_message :: "string option"
  cw_data :: "current_data option"

definition on_currentWeather :: "jsnum \<Rightarrow> jsnum \<Rightarrow> current_weather \<Rightarrow> page \<Rightarrow> outcome" where
  "on_currentWeather lat lon currentWeather p =
     (if truthy (cw_cod currentWeather) \<and> cw_cod currentWeather \<noteq> Some (JNum 200) then
        (case error404 p of
           (p1, es) \<Rightarrow>
             Completed (p1\<lparr>loading_display := ''none''\<rparr>)
               (ConsoleError (''API Error: '' @ to_string (cw_message currentWeather)) # es))
      else
        (case cw_data currentWeather of
           None \<Rightarrow> Uncaught TypeError p []
         | Some d \<Rightarrow>
             Completed
               (p\<lparr>currentWeatherSection := currentWeatherSection p @
                    [\<lparr>now_temp = cd_temp d,
                      now_icon = cond_icon (fst (cd_weather d)),
                      now_description = cond_description (fst (cd_weather d)),
                      now_dateUnix = cd_dt d,
                      now_timezone = cd_timezone d\<rparr>]\<rparr>)
               [Fetch (ReverseGeo lat lon), Fetch (AirPollution lat lon), Fetch (Forecast lat lon)]))"

text \<open>
  The air-pollution callback reads the first reading and looks its index up in
  \<open>module.aqiText\<close>, a table of \<open>module.js\<close> taken here as a parameter (level and
  message by index). It throws on an empty list and on an index the table lacks.
  The reverse-geocode callback only fills the location label of the card and is left out.
\<close>

record air_reading =
  ar_aqi :: int
  ar_no2 :: rat
  ar_o3 :: rat
  ar_so2 :: rat
  ar_pm2_5 :: rat

definition on_airPollution ::
  "(int \<Rightarrow> (string \<times> string) option) \<Rightarrow> current_data \<Rightarrow> air_reading list \<Rightarrow> page \<Rightarrow> outcome" where
  "on_airPollution aqiText d airPollution_list p =
     (case airPollution_list of
        [] \<Rightarrow> Uncaught TypeError p []
      | r # rest \<Rightarrow>
          (case aqiText (ar_aqi r) of
             None \<Rightarrow> Uncaught TypeError p []
           | Some (level, message) \<Rightarrow>
               Completed
                 (p\<lparr>highlightSection := highlightSection p @
                      [\<lparr>hl_pm2_5 = ar_pm2_5 r, hl_so2 = ar_so2 r, hl_no2 = ar_no2 r, hl_o3 = ar_o3 r,
                        hl_aqi = ar_aqi r, hl_aqi_message = message, hl_aqi_level = level,
                        hl_sunrise = cd_sunrise d, hl_sunset = cd_sunset d,
                        hl_timezone = cd_timezone d, hl_humidity = cd_humidity d,
                        hl_pressure = cd_pressure d, hl_visibility = cd_visibility d,
                        hl_feels_like = cd_feels_like d\<rparr>]\<rparr>)
                 []))"

subsection \<open>The forecast callback\<close>

text \<open>
  A point of the forecast list (one every three hours in the service's replies), and the
  reply: the list and the time zone of the city. Times are whole seconds. As in the
  current-weather reply, the \<open>weather\<close> array of a point has a first element, the only
  one read; the list itself may have any length.
\<close>

record forecast_point =
  fp_dt :: int
  fp_temp :: rat
  fp_temp_max :: rat
  fp_weather :: "weather_cond \<times> weather_cond list"
  fp_wind_deg :: rat
  fp_wind_speed :: rat
  fp_dt_txt :: string

record forecast =
  fc_list :: "forecast_point list"
  fc_timezone :: int

definition temp_li :: "forecast_point \<Rightarrow> int \<Rightarrow> nat \<Rightarrow> temp_item" where
  "temp_li data timezone i =
     \<lparr>ti_time = fp_dt data + int i * 3600,
      ti_timezone = timezone,
      ti_icon = cond_icon (fst (fp_weather data)),
      ti_description = cond_description (fst (fp_weather data)),
      ti_temp = fp_temp data\<rparr>"

definition wind_li :: "forecast_point \<Rightarrow> int \<Rightarrow> nat \<Rightarrow> wind_item" where
  "wind_li data timezone i =
     \<lparr>wi_time = fp_dt data + int i * 3600,
      wi_timezone = timezone,
      wi_direction = fp_wind_deg data,
      wi_speed = fp_wind_speed data\<rparr>"

text \<open>The inner loop \<open>for (let i = 0; i < 3 && hourCount < 24; i++)\<close>, from \<open>i\<close> on.\<close>

function hourly_repeat :: "forecast_point \<Rightarrow> int \<Rightarrow> nat \<Rightarrow> nat \<Rightarrow> hourly \<Rightarrow> nat \<times> hourly" where
  "hourly_repeat data timezone i hourCount h =
     (if i < 3 \<and> hourCount < 24 then
        hourly_repeat data timezone (i + 1) (hourCount + 1)
          (h\<lparr>data_temp := data_temp h @ [temp_li data timezone i],
             data_wind := data_wind h @ [wind_li data timezone i]\<rparr>)
      else (hourCount, h))"
  by pat_completeness auto
termination
  by (relation "measure (\<lambda>(data, timezone, i, hourCount, h). 3 - i)") auto

declare hourly_repeat.simps [simp del]

text \<open>The outer loop over the list, with its \<open>break\<close> at 24.\<close>

fun hourly_loop :: "forecast_point list \<Rightarrow> int \<Rightarrow> nat \<Rightarrow> hourly \<Rightarrow> hourly" where
  "hourly_loop [] timezone hourCount h = h"
| "hourly_loop (data # rest) timezone hourCount h =
     (if hourCount \<ge> 24 then h
      else (case hourly_repeat data timezone 0 hourCount h of
              (hourCount', h') \<Rightarrow> hourly_loop rest timezone hourCount' h'))"

text \<open>
  The items of the 7-day list: one built from a point of the list as it is, and one
  built from the last point with its date moved.
\<close>

definition day_li :: "forecast_point \<Rightarrow> int option \<Rightarrow> day_item" where
  "day_li data shift =
     \<lparr>di_icon = cond_icon (fst (fp_weather data)),
      di_description = cond_description (fst (fp_weather data)),
      di_temp_max = fp_temp_max data,
      di_dt_txt = fp_dt_txt data,
      di_shift = shift\<rparr>"

text \<open>\<open>for (let i = 7, len = forecastList.length; i < len && daysProcessed < 7; i += 8)\<close>\<close>

function forecast_days ::
  "forecast_point list \<Rightarrow> nat \<Rightarrow> nat \<Rightarrow> day_item list \<Rightarrow> nat \<times> day_item list" where
  "forecast_days forecastList i daysProcessed items =
     (if i < length forecastList \<and> daysProcessed < 7 then
        forecast_days forecastList (i + 8) (daysProcessed + 1)
          (items @ [day_li (forecastList ! i) None])
      else (daysProcessed, items))"
  by pat_completeness auto
termination
  by (relation "measure (\<lambda>(forecastList, i, daysProcessed, items). length forecastList - i)") auto

declare forecast_days.simps [simp del]

text \<open>
  \<open>while (daysProcessed < 7)\<close>: \<open>forecastList[forecastList.length - 1]\<close> is \<open>undefined\<close>
  for the empty list, and destructuring it throws; the items appended so far stay.
\<close>

function forecast_pad ::
  "forecast_point list \<Rightarrow> nat \<Rightarrow> day_item list \<Rightarrow> day_item list + day_item list" where
  "forecast_pad forecastList daysProcessed items =
     (if daysProcessed < 7 then
        (if forecastList = [] then Inl items
         else forecast_pad forecastList (daysProcessed + 1)
                (items @ [day_li (forecastList ! (length forecastList - 1))
                            (Some (int daysProcessed - 4))]))
      else Inr items)"
  by pat_completeness auto
termination
  by (relation "measure (\<lambda>(forecastList, daysProcessed, items). 7 - daysProcessed)") auto

declare forecast_pad.simps [simp del]

text \<open>The last three statements of the callback: the page shows its content.\<close>

definition show_content :: "page \<Rightarrow> page" where
  "show_content p =
     p\<lparr>loading_display := ''none'', container_overflowY := ''overlay'', container_fade_in := True\<rparr>"

definition on_forecast :: "forecast \<Rightarrow> page \<Rightarrow> outcome" where
  "on_forecast fc p =
     (let forecastList = fc_list fc;
          timezone = fc_timezone fc;
          p1 = p\<lparr>hourlySection :=
                 Some (hourly_loop forecastList timezone 0 \<lparr>data_temp = [], data_wind = []\<rparr>)\<rparr>
      in case forecast_days forecastList 7 0 [] of
           (daysProcessed, items) \<Rightarrow>
             (case forecast_pad forecastList daysProcessed items of
                Inl items' \<Rightarrow> Uncaught TypeError (p1\<lparr>forecastSection := Some items'\<rparr>) []
              | Inr items' \<Rightarrow> Completed (show_content (p1\<lparr>forecastSection := Some items'\<rparr>)) []))"

section \<open>app.js: the search field\<close>

text \<open>
  The state the search listener works on: the field and the result box with their
  classes, the search view, the variable \<open>searchTimeout\<close> (\<open>null\<close> or a timer handle),
  and the timeouts of the window that are pending, each with its handle and delay.
  \<open>setTimeout\<close> returns a fresh handle, \<open>next_handle\<close>.
\<close>

record search_item =
  si_name :: string
  si_state :: string
  si_country :: string
  si_lat :: rat
  si_lon :: rat

record search =
  searchField_value :: string
  searchField_searching :: bool
  searchResult_active :: bool
  searchResult_searching :: bool
  searchResult_list :: "search_item list option"
  searchView_active :: bool
  searchTimeout :: "nat option"
  pending :: "(nat \<times> nat) list"
  next_handle :: nat

definition searchTimeoutDuration :: nat where
  "searchTimeoutDuration = 500"

definition clearTimeout :: "nat \<Rightarrow> search \<Rightarrow> search" where
  "clearTimeout t s = s\<lparr>pending := filter (\<lambda>(handle, delay). handle \<noteq> t) (pending s)\<rparr>"

definition setTimeout :: "nat \<Rightarrow> search \<Rightarrow> nat \<times> search" where
  "setTimeout delay s =
     (next_handle s,
      s\<lparr>pending := pending s @ [(next_handle s, delay)], next_handle := next_handle s + 1\<rparr>)"

text \<open>The listener of \<open>input\<close> on the search field; a handle is truthy when it is not 0.\<close>

definition search_input :: "search \<Rightarrow> search" where
  "search_input s =
     (let s1 = (case searchTimeout s of
                  None \<Rightarrow> s
                | Some t \<Rightarrow> if t \<noteq> 0 then clearTimeout t s else s);
          s2 = (if searchField_value s1 = [] then
                  s1\<lparr>searchResult_active := False,
                     searchResult_list := None,
                     searchResult_searching := False\<rparr>
                else s1\<lparr>searchField_searching := True\<rparr>)
      in if searchField_value s2 \<noteq> [] then
           (case setTimeout searchTimeoutDuration s2 of
              (t, s3) \<Rightarrow> s3\<lparr>searchTimeout := Some t\<rparr>)
         else s2)"

text \<open>
  The callback of the timer hands one request to \<open>fetchData\<close>, for the value the field
  has then. A pending timeout that expires leaves the pending ones and runs it.
\<close>

definition search_timer_callback :: "search \<Rightarrow> effect list" where
  "search_timer_callback s = [Fetch (Geo (searchField_value s))]"

definition timer_expires :: "nat \<Rightarrow> search \<Rightarrow> search \<times> effect list" where
  "timer_expires t s =
     (if t \<in> fst ` set (pending s)
      then (clearTimeout t s, search_timer_callback (clearTimeout t s))
      else (s, []))"

text \<open>The callback of the geocode request, and the click on one of its rows.\<close>

record location =
  loc_name :: string
  loc_lat :: rat
  loc_lon :: rat
  loc_country :: string
  loc_state :: "string option"

definition on_locations :: "location list \<Rightarrow> search \<Rightarrow> search" where
  "on_locations locations s =
     s\<lparr>searchField_searching := False,
       searchResult_active := True,
       searchResult_list :=
         Some (map (\<lambda>l. \<lparr>si_name = loc_name l,
                          si_state = (if truthy_string (loc_state l) then to_string (loc_state l) else []),
                          si_country = loc_country l,
                          si_lat = loc_lat l,
                          si_lon = loc_lon l\<rparr>) locations)\<rparr>"

definition toggleSearch :: "search \<Rightarrow> search" where
  "toggleSearch s = s\<lparr>searchView_active := \<not> searchView_active s\<rparr>"

definition item_click :: "search \<Rightarrow> search" where
  "item_click s = (toggleSearch s)\<lparr>searchResult_active := False\<rparr>"

section \<open>Notions the properties are stated with\<close>

text \<open>The document before any listener has run: no fragment, no inline style, empty sections.\<close>

definition init_page :: page where
  "init_page =
     \<lparr>hash = [], loading_display = [], container_overflowY = [], container_fade_in = False,
      errorContent_display = [], currentLocationBtn_disabled = False,
      currentWeatherSection = [], highlightSection = [], hourlySection = None,
      forecastSection = None\<rparr>"

text \<open>The requests among the effects, and the entries of a route handler.\<close>

fun fetches :: "effect list \<Rightarrow> endpoint list" where
  "fetches [] = []"
| "fetches (Fetch e # es) = e # fetches es"
| "fetches (x # es) = fetches es"

fun is_handler_entry :: "effect \<Rightarrow> bool" where
  "is_handler_entry Enter_currentLocation = True"
| "is_handler_entry (Enter_searchedLocation q) = True"
| "is_handler_entry _ = False"

text \<open>
  A query has a key (\<open>lat=\<close>, \<open>lon=\<close>) when one of its \<open>&\<close>-separated parameters
  starts with it. The value of the key is what follows it in the first such parameter,
  up to the next \<open>=\<close>. A number is in a range when it is finite and between the bounds.
\<close>

definition has_key :: "string \<Rightarrow> string \<Rightarrow> bool" where
  "has_key key query = (\<exists>param \<in> set (js_split CHR ''&'' query). startsWith param key)"

definition key_value :: "string \<Rightarrow> string \<Rightarrow> string" where
  "key_value key query =
     (case find (\<lambda>param. startsWith param key) (js_split CHR ''&'' query) of
        None \<Rightarrow> []
      | Some param \<Rightarrow> takeWhile (\<lambda>c. c \<noteq> CHR ''='') (drop (length key) param))"

fun in_range :: "rat \<Rightarrow> rat \<Rightarrow> jsnum \<Rightarrow> bool" where
  "in_range lo hi (Fin x) = (lo \<le> x \<and> x \<le> hi)"
| "in_range lo hi _ = False"

text \<open>
  The route name of a hash: what follows its first character, up to the first \<open>?\<close>.
  The query: what lies between the first \<open>?\<close> and the next one.
\<close>

definition route_name :: "string \<Rightarrow> string" where
  "route_name h = takeWhile (\<lambda>c. c \<noteq> CHR ''?'') (drop 1 h)"

definition query_part :: "string \<Rightarrow> string" where
  "query_part h =
     takeWhile (\<lambda>c. c \<noteq> CHR ''?'') (drop 1 (dropWhile (\<lambda>c. c \<noteq> CHR ''?'') (drop 1 h)))"




text \<open>Whether a callback ran to its end.\<close>

fun completed :: "outcome \<Rightarrow> bool" where
  "completed (Completed p es) = True"
| "completed (Uncaught e p es) = False"

text \<open>
  Replies to run the callbacks on: a forecast of nine points three hours apart, the
  \<open>k\<close>-th with temperature \<open>k\<close>, and a forecast with an empty list.
\<close>

definition sample_cond :: weather_cond where
  "sample_cond = \<lparr>cond_description = ''clear sky'', cond_icon = ''01d''\<rparr>"

definition sample_point :: "nat \<Rightarrow> forecast_point" where
  "sample_point k =
     \<lparr>fp_dt = 10800 * int k, fp_temp = of_nat k, fp_temp_max = of_nat k,
      fp_weather = (sample_cond, []), fp_wind_deg = 180, fp_wind_speed = 3,
      fp_dt_txt = ''2024-01-01 00:00:00''\<rparr>"

definition sample_forecast :: forecast where
  "sample_forecast =
     \<lparr>fc_list = [sample_point 0, sample_point 1, sample_point 2, sample_point 3, sample_point 4,
                 sample_point 5, sample_point 6, sample_point 7, sample_point 8],
      fc_timezone = 0\<rparr>"

definition empty_forecast :: forecast where
  "empty_forecast = \<lparr>fc_list = [], fc_timezone = 0\<rparr>"

text \<open>
  The three visual states. The style sheet is not among the sources: a state counts as
  active when the script has switched it on, loading by \<open>display: grid\<close>, the error panel
  by \<open>display: flex\<close>, the content by the class \<open>fade-in\<close> of the container.
\<close>

definition loading_active :: "page \<Rightarrow> bool" where
  "loading_active p = (loading_display p = ''grid'')"

definition content_active :: "page \<Rightarrow> bool" where
  "content_active p = container_fade_in p"

definition error_active :: "page \<Rightarrow> bool" where
  "error_active p = (errorContent_display p = ''flex'')"

definition active_states :: "page \<Rightarrow> nat" where
  "active_states p =
     (if loading_active p then 1 else 0) + (if content_active p then 1 else 0)
     + (if error_active p then 1 else 0)"

definition exactly_one_active :: "page \<Rightarrow> bool" where
  "exactly_one_active p = (active_states p = 1)"

text \<open>
  Replies of the current-weather endpoint to run the callback on: one with \<open>cod\<close> 200, the
  service's reply for a place it does not know, and one that carries weather data under a
  \<open>cod\<close> of 0. Then the page after \<open>updateWeather\<close>, and the page after a whole render.
\<close>

definition sample_data :: current_data where
  "sample_data =
     \<lparr>cd_weather = (sample_cond, []), cd_dt = 0, cd_sunrise = 21600, cd_sunset = 64800,
      cd_temp = 20, cd_feels_like = 19, cd_pressure = 1013, cd_humidity = 40,
      cd_visibility = 10000, cd_timezone = 0\<rparr>"

definition ok_reply :: current_weather where
  "ok_reply = \<lparr>cw_cod = Some (JNum 200), cw_message = None, cw_data = Some sample_data\<rparr>"

definition not_found_reply :: current_weather where
  "not_found_reply =
     \<lparr>cw_cod = Some (JStr ''404''), cw_message = Some ''city not found'', cw_data = None\<rparr>"

definition zero_cod_reply :: current_weather where
  "zero_cod_reply = \<lparr>cw_cod = Some (JNum 0), cw_message = None, cw_data = Some sample_data\<rparr>"

definition loading_page :: page where
  "loading_page = fst (updateWeather (Fin 0) (Fin 0) init_page)"

definition rendered_page :: page where
  "rendered_page =
     outcome_page (on_forecast sample_forecast
       (outcome_page (on_currentWeather (Fin 0) (Fin 0) ok_reply loading_page)))"

text \<open>
  The search box before any event, and what holds of its timers from then on: handles are
  positive and below the next one, and what is pending is at most the timeout whose handle
  \<open>searchTimeout\<close> holds.
\<close>

definition init_search :: search where
  "init_search =
     \<lparr>searchField_value = [], searchField_searching = False, searchResult_active = False,
      searchResult_searching = False, searchResult_list = None, searchView_active = False,
      searchTimeout = None, pending = [], next_handle = 1\<rparr>"

definition timers_ok :: "search \<Rightarrow> bool" where
  "timers_ok s =
     (0 < next_handle s \<and>
      (case searchTimeout s of
         None \<Rightarrow> pending s = []
       | Some t \<Rightarrow> 0 < t \<and> t < next_handle s
                  \<and> (pending s = [] \<or> pending s = [(t, searchTimeoutDuration)])))"

text \<open>
  The events of the search box: the user changes the text of the field (the browser sets
  the value, then runs the listener), a timeout expires, a geocode reply arrives, a row is
  clicked. \<open>search_run\<close> is the box after a sequence of them.
\<close>

definition input_event :: "string \<Rightarrow> search \<Rightarrow> search" where
  "input_event v s = search_input (s\<lparr>searchField_value := v\<rparr>)"

datatype search_event =
    Input string
  | TimerExpires nat
  | Locations "location list"
  | ItemClick

fun search_step :: "search_event \<Rightarrow> search \<Rightarrow> search" where
  "search_step (Input v) s = input_event v s"
| "search_step (TimerExpires t) s = fst (timer_expires t s)"
| "search_step (Locations ls) s = on_locations ls s"
| "search_step ItemClick s = item_click s"

definition search_run :: "search_event list \<Rightarrow> search" where
  "search_run events = fold search_step events init_search"

section \<open>Strings: splitting and prefixes\<close>

lemma js_split_not_Nil: "js_split c s \<noteq> []"
  by (induction s) (auto split: list.splits)

lemma js_split_append:
  "c \<notin> set pre \<Longrightarrow> js_split c (pre @ c # rest) = pre # js_split c rest"
  by (induction pre) auto

lemma hd_js_split: "hd (js_split c s) = takeWhile (\<lambda>x. x \<noteq> c) s"
  using js_split_not_Nil [of c] by (induction s) (auto split: list.splits)

lemma js_split_no_sep: "c \<notin> set s \<Longrightarrow> js_split c s = [s]"
  by (induction s) auto

lemma startsWith_append: "startsWith s pre \<Longrightarrow> s = pre @ drop (length pre) s"
  unfolding startsWith_def by (metis append_take_drop_id)

lemma split_eq_after_key:
  assumes "startsWith param (k @ ''='')" and "CHR ''='' \<notin> set k"
  shows "at_index (js_split CHR ''='' param) 1
         = Some (takeWhile (\<lambda>x. x \<noteq> CHR ''='') (drop (length k + 1) param))"
proof -
  from assms(1) have "param = k @ CHR ''='' # drop (length k + 1) param"
    using startsWith_append by fastforce
  then have "js_split CHR ''='' param = k # js_split CHR ''='' (drop (length k + 1) param)"
    using js_split_append [OF assms(2)] by metis
  then show ?thesis
    using js_split_not_Nil [of "CHR ''=''" "drop (length k + 1) param"]
      hd_js_split [of "CHR ''=''" "drop (length k + 1) param"]
    by (cases "js_split CHR ''='' (drop (length k + 1) param)") (auto simp: at_index_def)
qed


section \<open>The router\<close>

lemma in_range_iff:
  "in_range lo hi x \<longleftrightarrow> \<not> (isNaN x \<or> js_less x (Fin lo) \<or> js_less (Fin hi) x)"
  by (cases x) auto

lemma has_key_find: "has_key key query \<longleftrightarrow> find (\<lambda>param. startsWith param key) (js_split CHR ''&'' query) \<noteq> None"
  by (auto simp: has_key_def find_None_iff)

lemma find_startsWith:
  assumes "find (\<lambda>param. startsWith param (k @ ''='')) ps = Some param" and "CHR ''='' \<notin> set k"
  shows "param \<noteq> [] \<and> at_index (js_split CHR ''='' param) 1
         = Some (takeWhile (\<lambda>x. x \<noteq> CHR ''='') (drop (length (k @ ''='')) param))"
proof -
  from assms(1) have sw: "startsWith param (k @ ''='')"
    by (auto simp: find_Some_iff)
  then have "param \<noteq> []" by (auto simp: startsWith_def)
  with split_eq_after_key [OF sw assms(2)] show ?thesis by simp
qed

text \<open>
  The handler, whatever \<open>parseFloat\<close> is: it calls \<open>updateWeather\<close> with the two parsed
  values when both keys are there and both values are in range, and \<open>error404\<close> otherwise.
\<close>

lemma searchedLocation_eq:
  "searchedLocation parseFloat query p =
     after [Enter_searchedLocation query]
       (if has_key ''lat='' query \<and> has_key ''lon='' query
           \<and> in_range (- 90) 90 (parseFloat (key_value ''lat='' query))
           \<and> in_range (- 180) 180 (parseFloat (key_value ''lon='' query))
        then updateWeather (parseFloat (key_value ''lat='' query)) (parseFloat (key_value ''lon='' query)) p
        else error404 p)"
proof (cases "find (\<lambda>param. startsWith param ''lat='') (js_split CHR ''&'' query)")
  case None
  then show ?thesis by (simp add: searchedLocation_def has_key_find)
next
  case lat: (Some latParam)
  show ?thesis
  proof (cases "find (\<lambda>param. startsWith param ''lon='') (js_split CHR ''&'' query)")
    case None
    then show ?thesis by (simp add: searchedLocation_def has_key_find)
  next
    case lon: (Some lonParam)
    have a: "latParam \<noteq> [] \<and> at_index (js_split CHR ''='' latParam) 1
         = Some (takeWhile (\<lambda>x. x \<noteq> CHR ''='') (drop (length ''lat='') latParam))"
      using find_startsWith [of "''lat''" _ latParam] lat by simp
    have b: "lonParam \<noteq> [] \<and> at_index (js_split CHR ''='' lonParam) 1
         = Some (takeWhile (\<lambda>x. x \<noteq> CHR ''='') (drop (length ''lon='') lonParam))"
      using find_startsWith [of "''lon''" _ lonParam] lon by simp
    show ?thesis
      using a b lat lon
      by (simp add: searchedLocation_def has_key_find key_value_def in_range_iff Let_def)
  qed
qed

text \<open>
  C1: a query that lacks a \<open>lat=\<close> or a \<open>lon=\<close> key, or whose \<open>lat\<close> value does not
  parse to a finite number in [-90, 90], or whose \<open>lon\<close> value does not parse to a finite
  number in [-180, 180], makes \<open>searchedLocation\<close> call \<open>error404\<close> and nothing else:
  \<open>updateWeather\<close> is not entered and no request is made.
\<close>

theorem searchedLocation_rejects:
  assumes "\<not> has_key ''lat='' query \<or> \<not> has_key ''lon='' query
           \<or> \<not> in_range (- 90) 90 (parseFloat (key_value ''lat='' query))
           \<or> \<not> in_range (- 180) 180 (parseFloat (key_value ''lon='' query))"
  shows "searchedLocation parseFloat query p
           = (p\<lparr>errorContent_display := ''flex''\<rparr>, [Enter_searchedLocation query, Enter_error404])
         \<and> fetches (snd (searchedLocation parseFloat query p)) = []"
  using assms by (auto simp: searchedLocation_eq error404_def)

theorem searchedLocation_rejects_witness:
  "\<not> in_range (- 90) 90 (parseFloat_dec (key_value ''lat='' ''lat=999&lon=0''))
   \<and> searchedLocation parseFloat_dec ''lat=999&lon=0'' init_page
       = (init_page\<lparr>errorContent_display := ''flex''\<rparr>,
          [Enter_searchedLocation ''lat=999&lon=0'', Enter_error404])
   \<and> fetches (snd (searchedLocation parseFloat_dec ''lat=999&lon=0'' init_page)) = []"
proof -
  have h: "\<not> in_range (- 90) 90 (parseFloat_dec (key_value ''lat='' ''lat=999&lon=0''))"
    by (simp add: key_value_def startsWith_def parseFloat_dec_def is_digit_def is_blank_def
        digits_value_def)
  with searchedLocation_rejects [of "''lat=999&lon=0''" parseFloat_dec init_page]
  show ?thesis by simp
qed

text \<open>Conversely, every other query reaches \<open>updateWeather\<close> with the parsed pair.\<close>

lemma searchedLocation_accepts:
  assumes "has_key ''lat='' query" and "has_key ''lon='' query"
    and "in_range (- 90) 90 (parseFloat (key_value ''lat='' query))"
    and "in_range (- 180) 180 (parseFloat (key_value ''lon='' query))"
  shows "searchedLocation parseFloat query p
           = after [Enter_searchedLocation query]
               (updateWeather (parseFloat (key_value ''lat='' query))
                  (parseFloat (key_value ''lon='' query)) p)"
  using assms by (simp add: searchedLocation_eq)

text \<open>
  \<open>checkHash\<close> in terms of the route name and the query of the hash: the list that
  \<open>split("?")\<close> gives starts with them when the hash has a \<open>?\<close>.
\<close>

lemma split_query:
  assumes "CHR ''?'' \<in> set r"
  shows "at_index (js_split CHR ''?'' r) 0 = Some (takeWhile (\<lambda>c. c \<noteq> CHR ''?'') r)
       \<and> at_index (js_split CHR ''?'' r) 1
           = Some (takeWhile (\<lambda>c. c \<noteq> CHR ''?'') (drop 1 (dropWhile (\<lambda>c. c \<noteq> CHR ''?'') r)))"
proof -
  let ?pre = "takeWhile (\<lambda>c. c \<noteq> CHR ''?'') r"
  let ?suf = "dropWhile (\<lambda>c. c \<noteq> CHR ''?'') r"
  from assms have "?suf \<noteq> []" by simp
  moreover have "hd ?suf = CHR ''?''"
    using assms hd_dropWhile [of "\<lambda>c. c \<noteq> CHR ''?''" r] by auto
  ultimately have suf: "?suf = CHR ''?'' # drop 1 ?suf"
    by (cases ?suf) auto
  have "r = ?pre @ ?suf" by simp
  with suf have r: "r = ?pre @ CHR ''?'' # drop 1 ?suf" by metis
  have "CHR ''?'' \<notin> set ?pre"
    by (auto dest: set_takeWhileD)
  from js_split_append [OF this, of "drop 1 ?suf"] r
  have "js_split CHR ''?'' r = ?pre # js_split CHR ''?'' (drop 1 ?suf)" by metis
  then show ?thesis
    using js_split_not_Nil [of "CHR ''?''" "drop 1 ?suf"] hd_js_split [of "CHR ''?''" "drop 1 ?suf"]
    by (cases "js_split CHR ''?'' (drop 1 ?suf)") (auto simp: at_index_def)
qed

lemma checkHash_eq:
  "checkHash parseFloat p =
     (if route_name (hash p) = ''/current-location'' then currentLocation p
      else if route_name (hash p) = ''/weather''
           then searchedLocation parseFloat (query_part (hash p)) p
      else error404 p)"
proof (cases "CHR ''?'' \<in> set (drop 1 (hash p))")
  case True
  with split_query [OF this] show ?thesis
    by (simp add: checkHash_def js_includes_def routes_def route_name_def query_part_def Let_def)
next
  case False
  then have tw: "takeWhile (\<lambda>c. c \<noteq> CHR ''?'') (drop 1 (hash p)) = drop 1 (hash p)"
    and dw: "dropWhile (\<lambda>c. c \<noteq> CHR ''?'') (drop 1 (hash p)) = []"
    by (auto simp: takeWhile_eq_all_conv)
  show ?thesis
    unfolding checkHash_def route_name_def query_part_def tw dw
    using False by (simp add: js_includes_def routes_def at_index_def)
qed

lemma searchedLocation_one_entry:
  "filter is_handler_entry (snd (searchedLocation parseFloat query p)) = [Enter_searchedLocation query]"
  by (simp add: searchedLocation_eq updateWeather_def error404_def)

text \<open>
  C5: when the route name of the hash is \<open>/current-location\<close>, \<open>checkHash\<close> is the
  handler \<open>currentLocation\<close>; when it is \<open>/weather\<close>, \<open>checkHash\<close> is the handler
  \<open>searchedLocation\<close> on the query of the hash. In both cases exactly one route handler
  is entered. When the route name is neither, \<open>checkHash\<close> calls \<open>error404\<close> and
  enters no handler.
\<close>

theorem checkHash_dispatch:
  "(route_name (hash p) = ''/current-location'' \<longrightarrow>
      checkHash parseFloat p = currentLocation p)
   \<and> (route_name (hash p) = ''/weather'' \<longrightarrow>
      checkHash parseFloat p = searchedLocation parseFloat (query_part (hash p)) p)
   \<and> (route_name (hash p) \<in> {''/current-location'', ''/weather''} \<longrightarrow>
      length (filter is_handler_entry (snd (checkHash parseFloat p))) = 1)
   \<and> (route_name (hash p) \<notin> {''/current-location'', ''/weather''} \<longrightarrow>
      checkHash parseFloat p = (p\<lparr>errorContent_display := ''flex''\<rparr>, [Enter_error404])
      \<and> filter is_handler_entry (snd (checkHash parseFloat p)) = [])"
proof (intro conjI impI)
  assume "route_name (hash p) = ''/current-location''"
  then show "checkHash parseFloat p = currentLocation p"
    by (simp add: checkHash_eq)
next
  assume "route_name (hash p) = ''/weather''"
  then show "checkHash parseFloat p = searchedLocation parseFloat (query_part (hash p)) p"
    by (simp add: checkHash_eq)
next
  assume "route_name (hash p) \<in> {''/current-location'', ''/weather''}"
  then show "length (filter is_handler_entry (snd (checkHash parseFloat p))) = 1"
    by (auto simp: checkHash_eq searchedLocation_one_entry currentLocation_def)
next
  assume other: "route_name (hash p) \<notin> {''/current-location'', ''/weather''}"
  then show "checkHash parseFloat p = (p\<lparr>errorContent_display := ''flex''\<rparr>, [Enter_error404])"
    by (simp add: checkHash_eq error404_def)
  from other show "filter is_handler_entry (snd (checkHash parseFloat p)) = []"
    by (simp add: checkHash_eq error404_def)
qed

theorem checkHash_dispatch_witness:
  "route_name (hash (init_page\<lparr>hash := ''#/current-location''\<rparr>)) = ''/current-location''
   \<and> checkHash parseFloat_dec (init_page\<lparr>hash := ''#/current-location''\<rparr>)
       = (init_page\<lparr>hash := ''#/current-location''\<rparr>, [Enter_currentLocation, GetCurrentPosition])
   \<and> route_name (hash (init_page\<lparr>hash := ''#/weather?lat=999&lon=0''\<rparr>)) = ''/weather''
   \<and> checkHash parseFloat_dec (init_page\<lparr>hash := ''#/weather?lat=999&lon=0''\<rparr>)
       = searchedLocation parseFloat_dec ''lat=999&lon=0''
           (init_page\<lparr>hash := ''#/weather?lat=999&lon=0''\<rparr>)
   \<and> length (filter is_handler_entry
         (snd (checkHash parseFloat_dec (init_page\<lparr>hash := ''#/weather?lat=999&lon=0''\<rparr>)))) = 1
   \<and> route_name (hash (init_page\<lparr>hash := ''#/nowhere''\<rparr>))
     \<notin> {''/current-location'', ''/weather''}
   \<and> checkHash parseFloat_dec (init_page\<lparr>hash := ''#/nowhere''\<rparr>)
       = (init_page\<lparr>hash := ''#/nowhere'', errorContent_display := ''flex''\<rparr>, [Enter_error404])"
proof -
  note here = checkHash_dispatch [of "init_page\<lparr>hash := ''#/current-location''\<rparr>" parseFloat_dec]
  note weather = checkHash_dispatch [of "init_page\<lparr>hash := ''#/weather?lat=999&lon=0''\<rparr>" parseFloat_dec]
  note nowhere = checkHash_dispatch [of "init_page\<lparr>hash := ''#/nowhere''\<rparr>" parseFloat_dec]
  have r1: "route_name (hash (init_page\<lparr>hash := ''#/current-location''\<rparr>)) = ''/current-location''"
    by (simp add: route_name_def)
  have r2: "route_name (hash (init_page\<lparr>hash := ''#/weather?lat=999&lon=0''\<rparr>)) = ''/weather''"
    by (simp add: route_name_def)
  have r3: "route_name (hash (init_page\<lparr>hash := ''#/nowhere''\<rparr>))
              \<notin> {''/current-location'', ''/weather''}"
    by (simp add: route_name_def)
  have q: "query_part (hash (init_page\<lparr>hash := ''#/weather?lat=999&lon=0''\<rparr>)) = ''lat=999&lon=0''"
    by (simp add: query_part_def)
  from here r1
  have c1: "checkHash parseFloat_dec (init_page\<lparr>hash := ''#/current-location''\<rparr>)
       = (init_page\<lparr>hash := ''#/current-location''\<rparr>, [Enter_currentLocation, GetCurrentPosition])"
    by (simp add: currentLocation_def)
  from weather r2
  have "checkHash parseFloat_dec (init_page\<lparr>hash := ''#/weather?lat=999&lon=0''\<rparr>)
       = searchedLocation parseFloat_dec
           (query_part (hash (init_page\<lparr>hash := ''#/weather?lat=999&lon=0''\<rparr>)))
           (init_page\<lparr>hash := ''#/weather?lat=999&lon=0''\<rparr>)"
    by blast
  then have c2: "checkHash parseFloat_dec (init_page\<lparr>hash := ''#/weather?lat=999&lon=0''\<rparr>)
       = searchedLocation parseFloat_dec ''lat=999&lon=0''
           (init_page\<lparr>hash := ''#/weather?lat=999&lon=0''\<rparr>)"
    by (simp only: q)
  from weather r2
  have c3: "length (filter is_handler_entry
         (snd (checkHash parseFloat_dec (init_page\<lparr>hash := ''#/weather?lat=999&lon=0''\<rparr>)))) = 1"
    by blast
  from nowhere r3
  have c4: "checkHash parseFloat_dec (init_page\<lparr>hash := ''#/nowhere''\<rparr>)
       = (init_page\<lparr>hash := ''#/nowhere'', errorContent_display := ''flex''\<rparr>, [Enter_error404])"
    by simp
  from r1 c1 r2 c2 c3 r3 c4 show ?thesis by (intro conjI)
qed

text \<open>
  C7: on \<open>load\<close> with an empty hash, the listener does not run \<open>checkHash\<close>: it
  assigns \<open>#/current-location\<close>, which fires \<open>hashchange\<close>, and \<open>checkHash\<close> on the
  page so changed enters \<open>currentLocation\<close>. With a hash that is not empty the
  listener is \<open>checkHash\<close> on that hash.
\<close>

theorem on_load_behaviour:
  "(hash p = [] \<longrightarrow>
      on_load parseFloat p = (p\<lparr>hash := ''#/current-location''\<rparr>, [HashChange])
      \<and> checkHash parseFloat (fst (on_load parseFloat p))
          = (fst (on_load parseFloat p), [Enter_currentLocation, GetCurrentPosition]))
   \<and> (hash p \<noteq> [] \<longrightarrow> on_load parseFloat p = checkHash parseFloat p)"
  by (simp add: on_load_def assign_hash_def checkHash_eq route_name_def currentLocation_def)

theorem on_load_behaviour_witness:
  "hash init_page = []
   \<and> on_load parseFloat_dec init_page = (init_page\<lparr>hash := ''#/current-location''\<rparr>, [HashChange])
   \<and> checkHash parseFloat_dec (init_page\<lparr>hash := ''#/current-location''\<rparr>)
       = (init_page\<lparr>hash := ''#/current-location''\<rparr>, [Enter_currentLocation, GetCurrentPosition])
   \<and> hash (init_page\<lparr>hash := ''#/nowhere''\<rparr>) \<noteq> []
   \<and> on_load parseFloat_dec (init_page\<lparr>hash := ''#/nowhere''\<rparr>)
       = (init_page\<lparr>hash := ''#/nowhere'', errorContent_display := ''flex''\<rparr>, [Enter_error404])"
proof -
  note empty = on_load_behaviour [of init_page parseFloat_dec]
  note other = on_load_behaviour [of "init_page\<lparr>hash := ''#/nowhere''\<rparr>" parseFloat_dec]
  have a: "hash init_page = []"
    by (simp add: init_page_def)
  have b: "hash (init_page\<lparr>hash := ''#/nowhere''\<rparr>) \<noteq> []"
    by simp
  from empty a
  have c1: "on_load parseFloat_dec init_page
              = (init_page\<lparr>hash := ''#/current-location''\<rparr>, [HashChange])"
    by blast
  from empty a
  have "checkHash parseFloat_dec (fst (on_load parseFloat_dec init_page))
          = (fst (on_load parseFloat_dec init_page), [Enter_currentLocation, GetCurrentPosition])"
    by blast
  then have c2: "checkHash parseFloat_dec (init_page\<lparr>hash := ''#/current-location''\<rparr>)
       = (init_page\<lparr>hash := ''#/current-location''\<rparr>, [Enter_currentLocation, GetCurrentPosition])"
    by (simp only: c1 fst_conv)
  from other b
  have "on_load parseFloat_dec (init_page\<lparr>hash := ''#/nowhere''\<rparr>)
          = checkHash parseFloat_dec (init_page\<lparr>hash := ''#/nowhere''\<rparr>)"
    by blast
  also have "\<dots> = (init_page\<lparr>hash := ''#/nowhere'', errorContent_display := ''flex''\<rparr>, [Enter_error404])"
    by (simp add: checkHash_eq route_name_def error404_def)
  finally show ?thesis
    using a b c1 c2 by blast
qed

text \<open>
  C8: when the position request fails, for whatever reason, the callback of
  \<open>currentLocation\<close> assigns the fixed hash \<open>#/weather?lat=28.6139&lon=77.209\<close> and
  does not call \<open>error404\<close>; when it succeeds, the callback is \<open>updateWeather\<close> on the
  coordinates returned.
\<close>

theorem currentLocation_callback_behaviour:
  "fst (currentLocation_callback (PositionError err) p) = p\<lparr>hash := ''#/weather?lat=28.6139&lon=77.209''\<rparr>
   \<and> Enter_error404 \<notin> set (snd (currentLocation_callback (PositionError err) p))
   \<and> currentLocation_callback (Position latitude longitude) p = updateWeather latitude longitude p
   \<and> Enter_updateWeather latitude longitude \<in> set (snd (currentLocation_callback (Position latitude longitude) p))"
  by (simp add: assign_hash_def defaultLocation_def updateWeather_def)

text \<open>
  Two runs of the router. After a failed position request the \<open>hashchange\<close> listener on
  the fallback hash reaches \<open>updateWeather\<close> at what \<open>parseFloat\<close> makes of \<open>28.6139\<close>
  and \<open>77.209\<close>, for every \<open>parseFloat\<close> that reads them as numbers in range, as the
  built-in does. With the decimal reading of \<open>parseFloat\<close>, the hash
  \<open>#/weather?lat=999&lon=0\<close> ends in the error panel without a request.
\<close>

lemma fallback_is_rendered:
  assumes "in_range (- 90) 90 (parseFloat ''28.6139'')"
    and "in_range (- 180) 180 (parseFloat ''77.209'')"
  shows "checkHash parseFloat (fst (currentLocation_callback (PositionError err) p))
   = after [Enter_searchedLocation ''lat=28.6139&lon=77.209'']
       (updateWeather (parseFloat ''28.6139'') (parseFloat ''77.209'')
          (p\<lparr>hash := ''#/weather?lat=28.6139&lon=77.209''\<rparr>))"
proof -
  have q: "query_part ''#/weather?lat=28.6139&lon=77.209'' = ''lat=28.6139&lon=77.209''"
    and r: "route_name ''#/weather?lat=28.6139&lon=77.209'' = ''/weather''"
    by (simp_all add: query_part_def route_name_def)
  have k: "has_key ''lat='' ''lat=28.6139&lon=77.209''" "has_key ''lon='' ''lat=28.6139&lon=77.209''"
    "key_value ''lat='' ''lat=28.6139&lon=77.209'' = ''28.6139''"
    "key_value ''lon='' ''lat=28.6139&lon=77.209'' = ''77.209''"
    by (simp_all add: has_key_def key_value_def startsWith_def)
  show ?thesis
    using assms
    by (simp add: assign_hash_def defaultLocation_def checkHash_eq q r searchedLocation_eq k)
qed

lemma rejected_hash_end_to_end:
  "checkHash parseFloat_dec (init_page\<lparr>hash := ''#/weather?lat=999&lon=0''\<rparr>)
   = (init_page\<lparr>hash := ''#/weather?lat=999&lon=0'', errorContent_display := ''flex''\<rparr>,
      [Enter_searchedLocation ''lat=999&lon=0'', Enter_error404])"
proof -
  have lat: "parseFloat_dec ''999'' = Fin 999"
    by (simp add: parseFloat_dec_def startsWith_def is_digit_def is_blank_def digits_value_def)
  have q: "query_part ''#/weather?lat=999&lon=0'' = ''lat=999&lon=0''"
    and r: "route_name ''#/weather?lat=999&lon=0'' = ''/weather''"
    by (simp_all add: query_part_def route_name_def)
  have k: "key_value ''lat='' ''lat=999&lon=0'' = ''999''"
    by (simp add: key_value_def startsWith_def)
  show ?thesis
    by (simp add: checkHash_eq q r searchedLocation_eq k lat error404_def)
qed

section \<open>The loops of the forecast callback\<close>




text \<open>
  The loop of the 7-day list takes the points at 7, 15, 23 and so on while they exist, seven
  at most; the padding loop fills up to seven from the last point, and stops at once on
  the empty list.
\<close>

lemma min_step: "(d::nat) < 7 \<Longrightarrow> min (7 - d) (Suc x) = Suc (min (7 - (d + 1)) x)"
  by linarith

lemma ceil8_step:
  fixes i n :: nat
  assumes "i < n"
  shows "(n - i + 7) div 8 = Suc ((n - (i + 8) + 7) div 8)"
proof (cases "i + 8 \<le> n")
  case True
  then have "n - i + 7 = (n - (i + 8) + 7) + 8" by linarith
  then show ?thesis by (simp only: div_add_self2) 
next
  case False
  define r where "r = n - i - 1"
  from False assms have r: "n - i + 7 = r + 8" "r < 8"
    unfolding r_def by linarith+
  from False have "n - (i + 8) = 0" by simp
  with r show ?thesis by simp
qed

lemma map_upt_shift:
  "map f [0..<Suc n] = f 0 # map (\<lambda>k. f (Suc k)) [0..<n]"
  by (simp only: map_upt_Suc)

lemma forecast_days_eq:
  "forecast_days fl i d items =
     (d + min (7 - d) ((length fl - i + 7) div 8),
      items @ map (\<lambda>k. day_li (fl ! (i + 8 * k)) None) [0..<min (7 - d) ((length fl - i + 7) div 8)])"
proof (induction fl i d items rule: forecast_days.induct)
  case (1 fl i d items)
  show ?case
  proof (cases "i < length fl \<and> d < 7")
    case True
    then have m: "min (7 - d) ((length fl - i + 7) div 8)
        = Suc (min (7 - (d + 1)) ((length fl - (i + 8) + 7) div 8))"
      using ceil8_step [of i "length fl"] min_step [of d] by simp
    have "forecast_days fl i d items
            = forecast_days fl (i + 8) (d + 1) (items @ [day_li (fl ! i) None])"
      using True by (subst forecast_days.simps) simp
    also note "1.IH" [OF True]
    finally show ?thesis
      unfolding m map_upt_shift by (simp add: add.assoc)
  next
    case False
    then have "min (7 - d) ((length fl - i + 7) div 8) = 0" by auto
    with False show ?thesis
      by (subst forecast_days.simps) auto
  qed
qed

lemma forecast_days_start:
  "forecast_days fl 7 0 [] =
     (min 7 (length fl div 8),
      map (\<lambda>k. day_li (fl ! (7 + 8 * k)) None) [0..<min 7 (length fl div 8)])"
proof -
  have "(length fl - 7 + 7) div 8 = length fl div 8"
  proof (cases "7 \<le> length fl")
    case True
    then show ?thesis by simp
  next
    case False
    then have "length fl - 7 = 0" and "length fl < 8" by simp_all
    then show ?thesis by simp
  qed
  then show ?thesis by (simp add: forecast_days_eq)
qed

lemma forecast_pad_eq:
  assumes "fl \<noteq> []"
  shows "forecast_pad fl d items =
           Inr (items @ map (\<lambda>j. day_li (last fl) (Some (int j - 4))) [d..<7])"
  using assms
proof (induction fl d items rule: forecast_pad.induct)
  case (1 fl d items)
  show ?case
  proof (cases "d < 7")
    case True
    with "1.prems" have "[d..<7] = d # [d + 1..<7]" by (simp add: upt_rec)
    with True "1.prems" "1.IH" [OF True "1.prems" "1.prems"] show ?thesis
      by (subst forecast_pad.simps) (simp add: last_conv_nth)
  next
    case False
    then show ?thesis by (subst forecast_pad.simps) simp
  qed
qed

lemma forecast_pad_empty:
  "forecast_pad [] d items = (if d < 7 then Inl items else Inr items)"
  by (subst forecast_pad.simps) simp



section \<open>The forecast callback as a whole\<close>



lemma on_forecast_nonempty:
  assumes "fc_list fc \<noteq> []"
  shows "on_forecast fc p =
     Completed
       (show_content
          (p\<lparr>hourlySection :=
               Some (hourly_loop (fc_list fc) (fc_timezone fc) 0 \<lparr>data_temp = [], data_wind = []\<rparr>),
             forecastSection :=
               Some (map (\<lambda>k. day_li (fc_list fc ! (7 + 8 * k)) None)
                       [0..<min 7 (length (fc_list fc) div 8)]
                     @ map (\<lambda>j. day_li (last (fc_list fc)) (Some (int j - 4)))
                         [min 7 (length (fc_list fc) div 8)..<7])\<rparr>))
       []"
  by (simp add: on_forecast_def Let_def forecast_days_start forecast_pad_eq [OF assms])

lemma on_forecast_empty:
  assumes "fc_list fc = []"
  shows "on_forecast fc p =
     Uncaught TypeError
       (p\<lparr>hourlySection := Some \<lparr>data_temp = [], data_wind = []\<rparr>,
          forecastSection := Some []\<rparr>)
       []"
  by (simp add: on_forecast_def Let_def forecast_days_start forecast_pad_empty assms)






section \<open>The hourly slider and the 7-day list\<close>






text \<open>
  C3, on the empty list: the callback throws in the padding loop, and the 7-day list it
  leaves has no item.
\<close>

theorem forecast_section_seven_counterexample:
  "length (fc_list empty_forecast) < 63
   \<and> on_forecast empty_forecast init_page =
        Uncaught TypeError
          (init_page\<lparr>hourlySection := Some \<lparr>data_temp = [], data_wind = []\<rparr>,
                     forecastSection := Some []\<rparr>) []
   \<and> map_option length (forecastSection (outcome_page (on_forecast empty_forecast init_page)))
       = Some 0"
  by (simp add: on_forecast_empty empty_forecast_def)

text \<open>
  C3, amended: for a forecast list that is not empty and has fewer than 63 points, the
  callback runs to its end and the 7-day list has exactly 7 items: first the points at
  index 7, 15, 23 and so on of the list, as many as it has, then items built from the
  last point of the list, the one added when \<open>daysProcessed\<close> items are there having its
  date moved by \<open>daysProcessed - 4\<close> days.
\<close>

theorem forecast_section_seven:
  assumes "fc_list fc \<noteq> []" and "length (fc_list fc) < 63"
  shows "on_forecast fc p = Completed (outcome_page (on_forecast fc p)) []
     \<and> forecastSection (outcome_page (on_forecast fc p)) =
         Some (map (\<lambda>k. day_li (fc_list fc ! (7 + 8 * k)) None) [0..<length (fc_list fc) div 8]
               @ map (\<lambda>daysProcessed. day_li (last (fc_list fc)) (Some (int daysProcessed - 4)))
                   [length (fc_list fc) div 8..<7])
     \<and> map_option length (forecastSection (outcome_page (on_forecast fc p))) = Some 7"
proof -
  from assms(2) have "length (fc_list fc) div 8 \<le> 7"
    by (simp add: less_mult_imp_div_less  less_Suc_eq_le [symmetric])
  then have "min 7 (length (fc_list fc) div 8) = length (fc_list fc) div 8" by simp
  with on_forecast_nonempty [OF assms(1), of p] \<open>length (fc_list fc) div 8 \<le> 7\<close>
  show ?thesis by (simp add: show_content_def)
qed

theorem forecast_section_seven_witness:
  "fc_list sample_forecast \<noteq> [] \<and> length (fc_list sample_forecast) < 63
   \<and> on_forecast sample_forecast init_page
       = Completed (outcome_page (on_forecast sample_forecast init_page)) []
   \<and> forecastSection (outcome_page (on_forecast sample_forecast init_page)) =
       Some [day_li (sample_point 7) None,
             day_li (sample_point 8) (Some (- 3)), day_li (sample_point 8) (Some (- 2)),
             day_li (sample_point 8) (Some (- 1)), day_li (sample_point 8) (Some 0),
             day_li (sample_point 8) (Some 1), day_li (sample_point 8) (Some 2)]"
proof -
  have a: "fc_list sample_forecast \<noteq> []" and b: "length (fc_list sample_forecast) < 63"
    by (simp_all add: sample_forecast_def)
  have c: "length (fc_list sample_forecast) div 8 = 1"
    by (simp add: sample_forecast_def)
  have d: "[0..<1] = [0::nat]" "[1..<7] = [1, 2, 3, 4, 5, 6::nat]"
    by (simp_all add: upt_rec)
  have e: "fc_list sample_forecast ! 7 = sample_point 7"
    "last (fc_list sample_forecast) = sample_point 8"
    by (simp_all add: sample_forecast_def)
  note t = forecast_section_seven [OF a b, of init_page]
  from t have "on_forecast sample_forecast init_page
       = Completed (outcome_page (on_forecast sample_forecast init_page)) []"
    by (elim conjE)
  moreover from t have "forecastSection (outcome_page (on_forecast sample_forecast init_page)) =
       Some [day_li (sample_point 7) None,
             day_li (sample_point 8) (Some (- 3)), day_li (sample_point 8) (Some (- 2)),
             day_li (sample_point 8) (Some (- 1)), day_li (sample_point 8) (Some 0),
             day_li (sample_point 8) (Some 1), day_li (sample_point 8) (Some 2)]"
    unfolding c d by (simp add: e)
  ultimately show ?thesis using a b by (intro conjI)
qed

text \<open>
  C10: on the empty forecast list the callback throws when the padding loop destructures
  \<open>forecastList[forecastList.length - 1]\<close>: it leaves an hourly section and a 7-day list
  without items and touches neither the loading element nor the error panel. On every
  list that is not empty it runs to its end.
\<close>

theorem on_forecast_total_iff:
  "(fc_list fc = [] \<longrightarrow>
      on_forecast fc p =
        Uncaught TypeError
          (p\<lparr>hourlySection := Some \<lparr>data_temp = [], data_wind = []\<rparr>,
             forecastSection := Some []\<rparr>) [])
   \<and> (fc_list fc \<noteq> [] \<longrightarrow> completed (on_forecast fc p))"
  by (simp add: on_forecast_empty on_forecast_nonempty)

theorem on_forecast_total_iff_witness:
  "fc_list empty_forecast = []
   \<and> on_forecast empty_forecast init_page =
        Uncaught TypeError
          (init_page\<lparr>hourlySection := Some \<lparr>data_temp = [], data_wind = []\<rparr>,
                     forecastSection := Some []\<rparr>) []
   \<and> fc_list sample_forecast \<noteq> []
   \<and> completed (on_forecast sample_forecast init_page)"
proof -
  have a: "fc_list empty_forecast = []" by (simp add: empty_forecast_def)
  have b: "fc_list sample_forecast \<noteq> []" by (simp add: sample_forecast_def)
  from on_forecast_total_iff [of empty_forecast init_page]
    on_forecast_total_iff [of sample_forecast init_page] a b
  show ?thesis by blast
qed

section \<open>The callback of the current-weather request\<close>

text \<open>When the guard on \<open>cod\<close> does not fire and the reply carries weather data.\<close>

lemma on_currentWeather_ok:
  assumes "\<not> (truthy (cw_cod cw) \<and> cw_cod cw \<noteq> Some (JNum 200))" and "cw_data cw = Some d"
  shows "on_currentWeather lat lon cw p =
     Completed
       (p\<lparr>currentWeatherSection := currentWeatherSection p @
            [\<lparr>now_temp = cd_temp d, now_icon = cond_icon (fst (cd_weather d)),
              now_description = cond_description (fst (cd_weather d)),
              now_dateUnix = cd_dt d, now_timezone = cd_timezone d\<rparr>]\<rparr>)
       [Fetch (ReverseGeo lat lon), Fetch (AirPollution lat lon), Fetch (Forecast lat lon)]"
  using assms by (auto simp: on_currentWeather_def)

text \<open>
  C2, on a reply whose \<open>cod\<close> is 0: \<open>cod\<close> is not 200, yet the guard
  \<open>currentWeather.cod && currentWeather.cod !== 200\<close> does not fire, the callback renders
  the card and makes the three further requests, and the error panel stays off.
\<close>

theorem on_currentWeather_error_counterexample:
  "cw_cod zero_cod_reply \<noteq> Some (JNum 200)
   \<and> fetches (outcome_effects (on_currentWeather (Fin 0) (Fin 0) zero_cod_reply loading_page))
       = [ReverseGeo (Fin 0) (Fin 0), AirPollution (Fin 0) (Fin 0), Forecast (Fin 0) (Fin 0)]
   \<and> Enter_error404 \<notin> set (outcome_effects (on_currentWeather (Fin 0) (Fin 0) zero_cod_reply loading_page))
   \<and> errorContent_display (outcome_page (on_currentWeather (Fin 0) (Fin 0) zero_cod_reply loading_page))
       = ''none''
   \<and> loading_display (outcome_page (on_currentWeather (Fin 0) (Fin 0) zero_cod_reply loading_page))
       = ''grid''"
  by (simp add: on_currentWeather_def zero_cod_reply_def loading_page_def updateWeather_def)

text \<open>
  C2, amended: for every reply whose \<open>cod\<close> is truthy (there, and not 0, the empty
  string, \<open>null\<close> or \<open>false\<close>) and is not the number 200, the callback calls
  \<open>error404\<close>, hides the loading element, and makes none of the three further requests.
\<close>

theorem on_currentWeather_error:
  assumes "truthy (cw_cod cw)" and "cw_cod cw \<noteq> Some (JNum 200)"
  shows "on_currentWeather lat lon cw p =
           Completed (p\<lparr>errorContent_display := ''flex'', loading_display := ''none''\<rparr>)
             [ConsoleError (''API Error: '' @ to_string (cw_message cw)), Enter_error404]
         \<and> fetches (outcome_effects (on_currentWeather lat lon cw p)) = []"
  using assms by (simp add: on_currentWeather_def error404_def)

theorem on_currentWeather_error_witness:
  "truthy (cw_cod not_found_reply) \<and> cw_cod not_found_reply \<noteq> Some (JNum 200)
   \<and> on_currentWeather (Fin 999) (Fin 0) not_found_reply loading_page =
        Completed (loading_page\<lparr>errorContent_display := ''flex'', loading_display := ''none''\<rparr>)
          [ConsoleError ''API Error: city not found'', Enter_error404]
   \<and> fetches (outcome_effects (on_currentWeather (Fin 999) (Fin 0) not_found_reply loading_page)) = []"
proof -
  have a: "truthy (cw_cod not_found_reply)" and b: "cw_cod not_found_reply \<noteq> Some (JNum 200)"
    by (simp_all add: not_found_reply_def)
  from on_currentWeather_error [OF a b, of "Fin 999" "Fin 0" loading_page] a b
  show ?thesis by (simp add: not_found_reply_def)
qed

section \<open>The visual states\<close>

lemma loading_page_eq:
  "loading_page =
     init_page\<lparr>loading_display := ''grid'', container_overflowY := ''hidden'',
               errorContent_display := ''none''\<rparr>"
  by (simp add: loading_page_def updateWeather_def init_page_def)

lemma rendered_page_states:
  "loading_display rendered_page = ''none''"
  "container_fade_in rendered_page"
  "errorContent_display rendered_page = ''none''"
proof -
  have ne: "fc_list sample_forecast \<noteq> []" by (simp add: sample_forecast_def)
  have ok: "\<not> (truthy (cw_cod ok_reply) \<and> cw_cod ok_reply \<noteq> Some (JNum 200))"
    and d: "cw_data ok_reply = Some sample_data"
    by (simp_all add: ok_reply_def)
  show "loading_display rendered_page = ''none''"
    unfolding rendered_page_def on_forecast_nonempty [OF ne] on_currentWeather_ok [OF ok d]
    by (simp add: show_content_def)
  show "container_fade_in rendered_page"
    unfolding rendered_page_def on_forecast_nonempty [OF ne] on_currentWeather_ok [OF ok d]
    by (simp add: show_content_def)
  show "errorContent_display rendered_page = ''none''"
    unfolding rendered_page_def on_forecast_nonempty [OF ne] on_currentWeather_ok [OF ok d]
    by (simp add: show_content_def loading_page_eq)
qed

text \<open>
  C6, after a whole render: \<open>error404\<close>, as \<open>checkHash\<close> calls it on a hash with no
  route, switches the error panel on and leaves the content on, so two states are active.
\<close>

theorem visual_states_counterexample:
  "exactly_one_active rendered_page
   \<and> \<not> exactly_one_active (fst (error404 rendered_page))
   \<and> content_active (fst (error404 rendered_page))
   \<and> error_active (fst (error404 rendered_page))
   \<and> fst (checkHash parseFloat_dec (rendered_page\<lparr>hash := ''#/nowhere''\<rparr>))
       = fst (error404 (rendered_page\<lparr>hash := ''#/nowhere''\<rparr>))"
  by (simp add: exactly_one_active_def active_states_def loading_active_def content_active_def
      error_active_def error404_def rendered_page_states checkHash_eq route_name_def)

text \<open>
  C6, amended: the entry of \<open>updateWeather\<close> leaves loading as the only active state.
  \<open>error404\<close> switches the error panel on and leaves loading and content as they were, so
  exactly one state is active after it just when neither was before. The end of the
  forecast callback, on a list that is not empty, switches the content on and loading off
  and leaves the error panel as it was, so exactly one state is active after it just when
  the error panel was not before.
\<close>

theorem visual_state_transitions:
  "exactly_one_active (fst (updateWeather lat lon p))
   \<and> loading_active (fst (updateWeather lat lon p))
   \<and> error_active (fst (error404 p))
   \<and> loading_active (fst (error404 p)) = loading_active p
   \<and> content_active (fst (error404 p)) = content_active p
   \<and> exactly_one_active (fst (error404 p)) = (\<not> loading_active p \<and> \<not> content_active p)
   \<and> (fc_list fc \<noteq> [] \<longrightarrow>
        content_active (outcome_page (on_forecast fc p))
        \<and> \<not> loading_active (outcome_page (on_forecast fc p))
        \<and> error_active (outcome_page (on_forecast fc p)) = error_active p
        \<and> exactly_one_active (outcome_page (on_forecast fc p)) = (\<not> error_active p))"
proof -
  have "exactly_one_active (fst (updateWeather lat lon p))"
    and "loading_active (fst (updateWeather lat lon p))"
    by (simp_all add: updateWeather_def exactly_one_active_def active_states_def
        loading_active_def content_active_def error_active_def)
  moreover have "error_active (fst (error404 p))"
    and "loading_active (fst (error404 p)) = loading_active p"
    and "content_active (fst (error404 p)) = content_active p"
    and "exactly_one_active (fst (error404 p)) = (\<not> loading_active p \<and> \<not> content_active p)"
    by (simp_all add: error404_def exactly_one_active_def active_states_def
        loading_active_def content_active_def error_active_def)
  moreover have "content_active (outcome_page (on_forecast fc p))
        \<and> \<not> loading_active (outcome_page (on_forecast fc p))
        \<and> error_active (outcome_page (on_forecast fc p)) = error_active p
        \<and> exactly_one_active (outcome_page (on_forecast fc p)) = (\<not> error_active p)"
    if "fc_list fc \<noteq> []"
    unfolding on_forecast_nonempty [OF that]
    by (simp add: show_content_def exactly_one_active_def active_states_def
        loading_active_def content_active_def error_active_def)
  ultimately show ?thesis by blast
qed

theorem visual_state_transitions_witness:
  "fc_list sample_forecast \<noteq> []
   \<and> exactly_one_active (fst (updateWeather (Fin 0) (Fin 0) init_page))
   \<and> \<not> error_active loading_page
   \<and> exactly_one_active (outcome_page (on_forecast sample_forecast loading_page))
   \<and> content_active (outcome_page (on_forecast sample_forecast loading_page))"
proof -
  have a: "fc_list sample_forecast \<noteq> []" by (simp add: sample_forecast_def)
  have b: "\<not> error_active loading_page" by (simp add: error_active_def loading_page_eq)
  note t = visual_state_transitions [of "Fin 0" "Fin 0" init_page sample_forecast]
  note u = visual_state_transitions [of "Fin 0" "Fin 0" loading_page sample_forecast]
  from t have "exactly_one_active (fst (updateWeather (Fin 0) (Fin 0) init_page))" by (elim conjE)
  moreover from u a b have "exactly_one_active (outcome_page (on_forecast sample_forecast loading_page))"
    and "content_active (outcome_page (on_forecast sample_forecast loading_page))"
    by blast+
  ultimately show ?thesis using a b by (intro conjI)
qed

text \<open>The two runs of the state machine that start at \<open>updateWeather\<close>.\<close>

lemma render_run_one_active:
  assumes "fc_list fc \<noteq> []"
  shows "exactly_one_active (outcome_page (on_forecast fc (fst (updateWeather lat lon p))))"
  unfolding on_forecast_nonempty [OF assms]
  by (simp add: show_content_def updateWeather_def exactly_one_active_def active_states_def
      loading_active_def content_active_def error_active_def)

lemma error_run_one_active:
  assumes "truthy (cw_cod cw)" and "cw_cod cw \<noteq> Some (JNum 200)"
  shows "exactly_one_active
           (outcome_page (on_currentWeather lat lon cw (fst (updateWeather lat' lon' p))))"
  using assms
  by (simp add: on_currentWeather_def error404_def updateWeather_def exactly_one_active_def
      active_states_def loading_active_def content_active_def error_active_def)

section \<open>The search field\<close>

text \<open>
  The property of the timers holds at the start and after every event; on a box that has
  it, the listener first leaves nothing pending, then either clears the results or sets
  one new timeout.
\<close>

lemma timers_ok_init: "timers_ok init_search"
  by (simp add: timers_ok_def init_search_def)

lemma search_input_cleared:
  assumes "timers_ok s"
  shows "pending (case searchTimeout s of None \<Rightarrow> s
                  | Some t \<Rightarrow> if t \<noteq> 0 then clearTimeout t s else s) = []"
  using assms
  by (auto simp: timers_ok_def clearTimeout_def split: option.splits)

lemma search_input_empty:
  assumes "timers_ok s" and "searchField_value s = []"
  shows "search_input s =
           s\<lparr>pending := [], searchResult_active := False, searchResult_list := None,
             searchResult_searching := False\<rparr>"
  using assms
  by (auto simp: search_input_def timers_ok_def clearTimeout_def Let_def split: option.splits)

lemma search_input_nonempty:
  assumes "timers_ok s" and "searchField_value s \<noteq> []"
  shows "search_input s =
           s\<lparr>pending := [(next_handle s, searchTimeoutDuration)],
             searchField_searching := True,
             next_handle := next_handle s + 1,
             searchTimeout := Some (next_handle s)\<rparr>"
  using assms
  by (auto simp: search_input_def timers_ok_def clearTimeout_def setTimeout_def Let_def
      split: option.splits)

lemma timers_ok_search_input:
  assumes "timers_ok s"
  shows "timers_ok (search_input s)"
proof (cases "searchField_value s = []")
  case True
  from assms show ?thesis
    unfolding search_input_empty [OF assms True]
    by (auto simp: timers_ok_def split: option.splits)
next
  case False
  from assms show ?thesis
    unfolding search_input_nonempty [OF assms False]
    by (auto simp: timers_ok_def split: option.splits)
qed

lemma timers_ok_timer_expires:
  assumes "timers_ok s"
  shows "timers_ok (fst (timer_expires t s))"
  using assms
  by (auto simp: timer_expires_def timers_ok_def clearTimeout_def split: option.splits)

lemma timers_ok_value: "timers_ok (s\<lparr>searchField_value := v\<rparr>) = timers_ok s"
  by (simp add: timers_ok_def split: option.splits)

lemma timers_ok_step:
  assumes "timers_ok s"
  shows "timers_ok (search_step e s)"
proof (cases e)
  case (Input v)
  from assms have "timers_ok (s\<lparr>searchField_value := v\<rparr>)"
    by (simp add: timers_ok_value)
  then show ?thesis
    by (simp add: Input input_event_def timers_ok_search_input)
next
  case (TimerExpires t)
  then show ?thesis by (simp add: timers_ok_timer_expires assms)
next
  case (Locations ls)
  with assms show ?thesis by (simp add: timers_ok_def on_locations_def split: option.splits)
next
  case ItemClick
  with assms show ?thesis
    by (simp add: timers_ok_def item_click_def toggleSearch_def split: option.splits)
qed

lemma timers_ok_fold: "timers_ok s \<Longrightarrow> timers_ok (fold search_step events s)"
  by (induction events arbitrary: s) (simp_all add: timers_ok_step)

lemma timers_ok_run: "timers_ok (search_run events)"
  by (simp add: search_run_def timers_ok_fold timers_ok_init)

lemma search_input_timers:
  assumes "timers_ok s"
  shows "(\<forall>t \<in> fst ` set (pending s). t \<notin> fst ` set (pending (search_input s)))
     \<and> (searchField_value s = [] \<longrightarrow>
          pending (search_input s) = []
          \<and> searchResult_list (search_input s) = None
          \<and> \<not> searchResult_active (search_input s)
          \<and> searchTimeout (search_input s) = searchTimeout s)
     \<and> (searchField_value s \<noteq> [] \<longrightarrow>
          pending (search_input s) = [(next_handle s, 500)]
          \<and> searchTimeout (search_input s) = Some (next_handle s)
          \<and> timer_expires (next_handle s) (search_input s)
              = ((search_input s)\<lparr>pending := []\<rparr>, [Fetch (Geo (searchField_value s))])
          \<and> timer_expires (next_handle s) (fst (timer_expires (next_handle s) (search_input s)))
              = ((search_input s)\<lparr>pending := []\<rparr>, []))"
proof (cases "searchField_value s = []")
  case True
  show ?thesis
    unfolding search_input_empty [OF assms True] using True by simp
next
  case False
  from assms have "\<forall>t \<in> fst ` set (pending s). t \<noteq> next_handle s"
    by (auto simp: timers_ok_def split: option.splits)
  then show ?thesis
    unfolding search_input_nonempty [OF assms False] using False
    by (simp add: timer_expires_def clearTimeout_def search_timer_callback_def
        searchTimeoutDuration_def)
qed

text \<open>
  C9: at every input event, whatever happened before, no timeout that was pending is
  pending afterwards. When the field is empty the result list is emptied and hidden and
  nothing is pending afterwards. When the field is not empty exactly one timeout is
  pending afterwards, of 500 ms; when it expires its callback makes one geocode request,
  for the value of the field, and it is no longer pending, so it makes no second one.
\<close>

theorem search_input_debounce:
  assumes "s = (search_run events)\<lparr>searchField_value := v\<rparr>"
  shows "(\<forall>t \<in> fst ` set (pending s). t \<notin> fst ` set (pending (search_input s)))
     \<and> (v = [] \<longrightarrow>
          pending (search_input s) = []
          \<and> searchResult_list (search_input s) = None
          \<and> \<not> searchResult_active (search_input s))
     \<and> (v \<noteq> [] \<longrightarrow>
          pending (search_input s) = [(next_handle s, 500)]
          \<and> searchTimeout (search_input s) = Some (next_handle s)
          \<and> timer_expires (next_handle s) (search_input s)
              = ((search_input s)\<lparr>pending := []\<rparr>, [Fetch (Geo v)])
          \<and> timer_expires (next_handle s) (fst (timer_expires (next_handle s) (search_input s)))
              = ((search_input s)\<lparr>pending := []\<rparr>, []))"
proof -
  have "timers_ok (search_run events)" by (rule timers_ok_run)
  then have ok: "timers_ok s" by (simp add: assms timers_ok_value)
  have v: "searchField_value s = v" by (simp add: assms)
  from search_input_timers [OF ok] show ?thesis
    unfolding v by blast
qed

theorem search_input_debounce_witness:
  "pending (search_run [Input ''Lon'']) = [(1, 500)]
   \<and> pending (search_input ((search_run [Input ''Lon''])\<lparr>searchField_value := ''Lond''\<rparr>)) = [(2, 500)]
   \<and> timer_expires 2 (search_input ((search_run [Input ''Lon''])\<lparr>searchField_value := ''Lond''\<rparr>))
       = ((search_input ((search_run [Input ''Lon''])\<lparr>searchField_value := ''Lond''\<rparr>))\<lparr>pending := []\<rparr>,
          [Fetch (Geo ''Lond'')])
   \<and> pending (search_input ((search_run [Input ''Lon''])\<lparr>searchField_value := []\<rparr>)) = []
   \<and> searchResult_list (search_input ((search_run [Input ''Lon''])\<lparr>searchField_value := []\<rparr>)) = None"
proof -
  have run: "search_run [Input ''Lon''] =
      init_search\<lparr>searchField_value := ''Lon'', searchField_searching := True,
        searchTimeout := Some 1, pending := [(1, 500)], next_handle := 2\<rparr>"
    by (simp add: search_run_def input_event_def search_input_def init_search_def setTimeout_def
        searchTimeoutDuration_def)
  have n: "next_handle ((search_run [Input ''Lon''])\<lparr>searchField_value := v\<rparr>) = 2" for v
    by (simp add: run)
  note full = search_input_debounce [where events = "[Input ''Lon'']" and v = "''Lond''", OF refl]
  note none = search_input_debounce [where events = "[Input ''Lon'']" and v = "[]", OF refl]
  have "pending (search_run [Input ''Lon'']) = [(1, 500)]"
    by (simp add: run)
  moreover from full have "pending (search_input ((search_run [Input ''Lon''])\<lparr>searchField_value := ''Lond''\<rparr>)) = [(2, 500)]"
    unfolding n by simp
  moreover from full have "timer_expires 2 (search_input ((search_run [Input ''Lon''])\<lparr>searchField_value := ''Lond''\<rparr>))
       = ((search_input ((search_run [Input ''Lon''])\<lparr>searchField_value := ''Lond''\<rparr>))\<lparr>pending := []\<rparr>,
          [Fetch (Geo ''Lond'')])"
    unfolding n by simp
  moreover from none have "pending (search_input ((search_run [Input ''Lon''])\<lparr>searchField_value := []\<rparr>)) = []"
    and "searchResult_list (search_input ((search_run [Input ''Lon''])\<lparr>searchField_value := []\<rparr>)) = None"
    by simp_all
  ultimately show ?thesis by (intro conjI)
qed

end
